theory Spec2Isabelle
  imports Complex_Main "HOL-Library.Sublist" "HOL-Library.AList"
begin

section \<open>Strings\<close>

text \<open>
  Python strings are modelled as \<open>string\<close> over ASCII: \<open>str.lower\<close> maps the letters
  \<open>A\<close> .. \<open>Z\<close> to \<open>a\<close> .. \<open>z\<close> and leaves every other character alone, and
  \<open>str.strip\<close> removes the ASCII characters for which \<open>str.isspace\<close> holds
  (codes 9 to 13 and 28 to 32) from both ends.
\<close>

definition lower_char :: "char \<Rightarrow> char" where
  "lower_char c =
     (let n = (of_char c :: nat) in if 65 \<le> n \<and> n \<le> 90 then char_of (n + 32) else c)"

definition lower :: "string \<Rightarrow> string" where
  "lower s = map lower_char s"

definition isspace :: "char \<Rightarrow> bool" where
  "isspace c = (let n = (of_char c :: nat) in (9 \<le> n \<and> n \<le> 13) \<or> (28 \<le> n \<and> n \<le> 32))"

definition strip :: "string \<Rightarrow> string" where
  "strip s = rev (dropWhile isspace (rev (dropWhile isspace s)))"

text \<open>\<open>sep.join(xs)\<close>.\<close>

fun str_join :: "string \<Rightarrow> string list \<Rightarrow> string" where
  "str_join sep [] = []"
| "str_join sep [x] = x"
| "str_join sep (x # y # ys) = x @ sep @ str_join sep (y # ys)"

text \<open>\<open>s.split(c)\<close> for a separator of one character; the accumulator holds the
  current piece, reversed.\<close>

fun split_char :: "char \<Rightarrow> string \<Rightarrow> string \<Rightarrow> string list" where
  "split_char sep acc [] = [rev acc]"
| "split_char sep acc (c # cs) =
     (if c = sep then rev acc # split_char sep [] cs else split_char sep (c # acc) cs)"

text \<open>\<open>s.split(', ')\<close>, the separator of \<open>movie_type\<close>.\<close>

fun split_comma_space :: "string \<Rightarrow> string \<Rightarrow> string list" where
  "split_comma_space acc [] = [rev acc]"
| "split_comma_space acc [c] = [rev (c # acc)]"
| "split_comma_space acc (c # d # cs) =
     (if c = CHR '','' \<and> d = CHR '' '' then rev acc # split_comma_space [] cs
      else split_comma_space (c # acc) (d # cs))"

text \<open>
  \<open>Series.str.contains(pat, case=False)\<close> for a pattern without regular-expression
  metacharacters (such as \<open>Comedy\<close>): the lowercased pattern occurs somewhere in the
  lowercased text.
\<close>

fun occurs_in :: "string \<Rightarrow> string \<Rightarrow> bool" where
  "occurs_in pat [] = (pat = [])"
| "occurs_in pat (c # cs) = (prefix pat (c # cs) \<or> occurs_in pat cs)"

definition contains_nocase :: "string \<Rightarrow> string \<Rightarrow> bool" where
  "contains_nocase pat s = occurs_in (lower pat) (lower s)"

section \<open>Paths (\<open>os.path\<close>, POSIX)\<close>

definition path_join :: "string \<Rightarrow> string \<Rightarrow> string" where
  "path_join a b =
     (if take 1 b = ''/'' then b
      else if a = [] \<or> last a = CHR ''/'' then a @ b
      else a @ ''/'' @ b)"

definition normpath_step :: "nat \<Rightarrow> string list \<Rightarrow> string \<Rightarrow> string list" where
  "normpath_step initial_slashes new_comps part =
     (if part = [] \<or> part = ''.'' then new_comps
      else if part \<noteq> ''..'' \<or> (initial_slashes = 0 \<and> new_comps = [])
              \<or> (new_comps \<noteq> [] \<and> last new_comps = ''..'')
           then new_comps @ [part]
      else if new_comps \<noteq> [] then butlast new_comps
      else new_comps)"

definition normpath :: "string \<Rightarrow> string" where
  "normpath path =
     (if path = [] then ''.''
      else
        let initial_slashes =
              (if take 1 path = ''/''
               then (if take 2 path = ''//'' \<and> take 3 path \<noteq> ''///'' then 2 else 1)
               else (0::nat));
            comps = foldl (normpath_step initial_slashes) [] (split_char CHR ''/'' [] path);
            p = replicate initial_slashes CHR ''/'' @ str_join ''/'' comps
        in if p = [] then ''.'' else p)"

text \<open>\<open>os.path.abspath\<close>; the working directory is a parameter.\<close>

definition abspath :: "string \<Rightarrow> string \<Rightarrow> string" where
  "abspath wd path = normpath (if take 1 path = ''/'' then path else path_join wd path)"

text \<open>\<open>os.path.commonprefix\<close> of two strings: the longest common prefix, character by
  character.\<close>

fun commonprefix :: "string \<Rightarrow> string \<Rightarrow> string" where
  "commonprefix (x # xs) (y # ys) = (if x = y then x # commonprefix xs ys else [])"
| "commonprefix _ _ = []"

text \<open>The directories and the file name of a path, and whether a path lies in a
  directory or is the directory itself.\<close>

definition components :: "string \<Rightarrow> string list" where
  "components p = filter (\<lambda>c. c \<noteq> []) (split_char CHR ''/'' [] p)"

definition is_within :: "string \<Rightarrow> string \<Rightarrow> bool" where
  "is_within dir p = prefix (components dir) (components p)"

section \<open>Errors\<close>

datatype error =
    ValueError
  | TypeError
  | AttributeError
  | PathTraversal
  | OutsideDestinationError

section \<open>Extractor\<close>

text \<open>
  The file system is the working directory and the absolute, normalised paths written
  so far, in the order of the writes. A path exists when it was written or when
  something was written below it. Symbolic links are not modelled.
\<close>

record os_state =
  cwd :: string
  written :: "string list"

definition exists :: "os_state \<Rightarrow> string \<Rightarrow> bool" where
  "exists os p = list_ex (\<lambda>f. is_within (abspath (cwd os) p) f) (written os)"

definition write_file :: "os_state \<Rightarrow> string \<Rightarrow> os_state" where
  "write_file os p = os\<lparr>written := written os @ [abspath (cwd os) p]\<rparr>"

record TarInfo =
  name :: string

text \<open>
  \<open>TarFile.extractall(path)\<close> of the standard library, called without a \<open>filter\<close>
  argument, so that the default of the running Python applies: \<open>fully_trusted\<close> (up to
  Python 3.13) writes every member at \<open>os.path.join(path, member.name)\<close>;
  \<open>data_filter\<close> (from Python 3.14) strips leading slashes from the name and raises when
  the target is outside the destination. Members are processed one after the other,
  and an error leaves the earlier members on disk.
\<close>

datatype extraction_filter = fully_trusted | data_filter

fun apply_filter :: "extraction_filter \<Rightarrow> os_state \<Rightarrow> string \<Rightarrow> string \<Rightarrow> string option" where
  "apply_filter fully_trusted os path nm = Some nm"
| "apply_filter data_filter os path nm =
     (let nm' = dropWhile (\<lambda>c. c = CHR ''/'') nm
      in if is_within (abspath (cwd os) path) (abspath (cwd os) (path_join path nm'))
         then Some nm' else None)"

fun extractall ::
  "extraction_filter \<Rightarrow> string \<Rightarrow> TarInfo list \<Rightarrow> os_state \<Rightarrow> (error + unit) \<times> os_state" where
  "extractall flt path [] os = (Inr (), os)"
| "extractall flt path (m # ms) os =
     (case apply_filter flt os path (name m) of
        None \<Rightarrow> (Inl OutsideDestinationError, os)
      | Some nm \<Rightarrow> extractall flt path ms (write_file os (path_join path nm)))"

definition download_dir :: string where
  "download_dir = ''downloads''"

definition extracted_dir :: string where
  "extracted_dir = path_join download_dir ''MovieSummaries''"

text \<open>
  \<open>MovieData._extract_data\<close> of \<open>moviedata_final.py\<close>. The members of
  \<open>downloads/MovieSummaries.tar.gz\<close> are the argument \<open>tar_ref\<close>. The \<open>except\<close> clause
  logs and re-raises.
\<close>

definition extract_data ::
  "extraction_filter \<Rightarrow> TarInfo list \<Rightarrow> os_state \<Rightarrow> (error + unit) \<times> os_state" where
  "extract_data flt tar_ref os =
     (if \<not> exists os extracted_dir then extractall flt download_dir tar_ref os
      else (Inr (), os))"

text \<open>
  \<open>safe_extract\<close> and \<open>MovieData._extract_data\<close> of \<open>moviedata.py\<close>: every member is
  checked with \<open>os.path.commonprefix\<close> before \<open>extractall\<close> is called.
\<close>

fun check_members :: "os_state \<Rightarrow> string \<Rightarrow> TarInfo list \<Rightarrow> bool" where
  "check_members os path [] = True"
| "check_members os path (member # members) =
     (let member_path = path_join path (name member)
      in if \<not> (commonprefix (abspath (cwd os) path) (abspath (cwd os) member_path)
                 = abspath (cwd os) path)
         then False
         else check_members os path members)"

definition safe_extract ::
  "extraction_filter \<Rightarrow> TarInfo list \<Rightarrow> string \<Rightarrow> os_state \<Rightarrow> (error + unit) \<times> os_state" where
  "safe_extract flt tar path os =
     (if \<not> check_members os path tar then (Inl PathTraversal, os)
      else extractall flt path tar os)"

definition extract_data_moviedata ::
  "extraction_filter \<Rightarrow> TarInfo list \<Rightarrow> os_state \<Rightarrow> (error + unit) \<times> os_state" where
  "extract_data_moviedata flt tar_ref os =
     (if \<not> exists os extracted_dir then safe_extract flt tar_ref download_dir os
      else (Inr (), os))"

section \<open>Tables\<close>

text \<open>
  A cell of a text column is a string or missing (\<open>None\<close> for NaN and for Python's
  \<open>None\<close>). A cell of the height column is a number, a string that \<open>read_csv\<close> left
  unparsed, or missing. A table is the list of its rows, in index order.
\<close>

datatype cell = NaN | Num real | Str string

record movie_row =
  Wikipedia_movie_ID_m :: "int option"
  Freebase_movie_ID_m :: "string option"
  Movie_Name :: "string option"
  Movie_release_Date :: "string option"
  Movie_box_office_revenue :: cell
  Movie_runtime :: cell
  Movie_languages :: "string option"
  Movie_countries :: "string option"
  Movie_genres :: "string option"

record character_row =
  Wikipedia_movie_ID :: "int option"
  Freebase_movie_ID :: "string option"
  Movie_release_date :: "string option"
  Character_name :: "string option"
  Actor_date_of_birth :: "string option"
  Actor_Gender :: "string option"
  Actor_height :: cell
  Actor_ethnicity :: "string option"
  Actor_name :: "string option"
  Actor_age_at_movie_release :: cell
  Freebase_character_actor_map_ID :: "string option"
  Freebase_character_ID :: "string option"
  Freebase_actor_ID :: "string option"

record MovieData =
  movie_df :: "movie_row list option"
  character_df :: "character_row list option"

section \<open>Cleaner\<close>

subsection \<open>\<open>ast.literal_eval\<close> on the serialised maps\<close>

text \<open>
  The cells of the genre, country and language columns are dict displays such as
  \<open>{"/m/01z4y": "Comedy", "/m/07s9rl0": "Drama"}\<close>. \<open>literal_eval\<close> is modelled on that
  format: a dict display whose keys and values are string literals in single or double
  quotes, without backslashes, separated by commas (a trailing comma is allowed), with
  blanks between the tokens. It yields the dict as the list of its items in insertion
  order, a repeated key keeping its first position and its last value. Any other text
  is a failure, which \<open>safe_eval\<close> turns into the empty string.
\<close>

datatype token = LBrace | RBrace | Colon | Comma | StrLit string

datatype lex_state = Outside | Inside char string

definition blank :: "char \<Rightarrow> bool" where
  "blank c = (c = CHR '' '' \<or> c = CHR 0x09 \<or> c = CHR 0x0A \<or> c = CHR 0x0C \<or> c = CHR 0x0D)"

fun emit :: "token \<Rightarrow> token list option \<Rightarrow> token list option" where
  "emit t None = None"
| "emit t (Some ts) = Some (t # ts)"

fun lex :: "lex_state \<Rightarrow> string \<Rightarrow> token list option" where
  "lex Outside [] = Some []"
| "lex (Inside q acc) [] = None"
| "lex Outside (c # cs) =
     (if blank c then lex Outside cs
      else if c = CHR ''{'' then emit LBrace (lex Outside cs)
      else if c = CHR ''}'' then emit RBrace (lex Outside cs)
      else if c = CHR '':'' then emit Colon (lex Outside cs)
      else if c = CHR '','' then emit Comma (lex Outside cs)
      else if c = CHR 0x22 \<or> c = CHR 0x27 then lex (Inside c []) cs
      else None)"
| "lex (Inside q acc) (c # cs) =
     (if c = q then emit (StrLit (rev acc)) (lex Outside cs)
      else if c = CHR 0x5C \<or> c = CHR 0x0A then None
      else lex (Inside q (c # acc)) cs)"

fun entries :: "token list \<Rightarrow> (string \<times> string) list \<Rightarrow> (string \<times> string) list option" where
  "entries [RBrace] d = Some d"
| "entries (StrLit k # Colon # StrLit v # ts) d =
     (case ts of
        [RBrace] \<Rightarrow> Some (AList.update k v d)
      | Comma # ts' \<Rightarrow> entries ts' (AList.update k v d)
      | _ \<Rightarrow> None)"
| "entries _ d = None"

definition literal_eval :: "string \<Rightarrow> (string \<times> string) list option" where
  "literal_eval s =
     (case lex Outside s of
        Some (LBrace # ts) \<Rightarrow> entries ts []
      | _ \<Rightarrow> None)"

subsection \<open>\<open>_clean_data\<close> of \<open>moviedata_final.py\<close>\<close>

text \<open>\<open>safe_eval\<close>: a string is parsed and the values of the dict are joined with
  \<open>', '\<close>, or the exception is logged and \<open>''\<close> returned; for a cell that is not a
  string the function falls off its end and returns \<open>None\<close>.\<close>

definition safe_eval :: "string option \<Rightarrow> string option" where
  "safe_eval x =
     (case x of
        Some s \<Rightarrow>
          (case literal_eval s of
             Some d \<Rightarrow> Some (str_join '', '' (map snd d))
           | None \<Rightarrow> Some [])
      | None \<Rightarrow> None)"

text \<open>The three calls of \<open>clean_column_values\<close> on the movie table.\<close>

definition clean_movie_row :: "movie_row \<Rightarrow> movie_row" where
  "clean_movie_row r =
     r\<lparr>Movie_genres := safe_eval (Movie_genres r),
       Movie_countries := safe_eval (Movie_countries r),
       Movie_languages := safe_eval (Movie_languages r)\<rparr>"

text \<open>
  \<open>pd.to_numeric(..., errors='coerce')\<close>: a number stays, a string is parsed by pandas
  (the parser is the parameter \<open>parse_number\<close>) and becomes missing when it cannot be
  parsed, a missing cell stays missing.
\<close>

fun to_numeric :: "(string \<Rightarrow> real option) \<Rightarrow> cell \<Rightarrow> cell" where
  "to_numeric parse_number (Num h) = Num h"
| "to_numeric parse_number NaN = NaN"
| "to_numeric parse_number (Str s) =
     (case parse_number s of Some h \<Rightarrow> Num h | None \<Rightarrow> NaN)"

text \<open>\<open>df.loc[df["Actor_height"] < 10, "Actor_height"] *= 100\<close>, on a numeric column.\<close>

fun rescale_height :: "cell \<Rightarrow> cell" where
  "rescale_height (Num h) = (if h < 10 then Num (h * 100) else Num h)"
| "rescale_height c = c"

text \<open>The pandas operations of the gender pipeline, cell by cell.\<close>

definition fillna_value :: "string \<Rightarrow> string option \<Rightarrow> string option" where
  "fillna_value v x = (case x of None \<Rightarrow> Some v | Some s \<Rightarrow> Some s)"

definition str_lower :: "string option \<Rightarrow> string option" where
  "str_lower x = map_option lower x"

definition str_strip :: "string option \<Rightarrow> string option" where
  "str_strip x = map_option strip x"

definition map_dict :: "(string \<times> string) list \<Rightarrow> string option \<Rightarrow> string option" where
  "map_dict d x = (case x of None \<Rightarrow> None | Some s \<Rightarrow> map_of d s)"

definition fillna_series :: "string option \<Rightarrow> string option \<Rightarrow> string option" where
  "fillna_series other x = (case x of None \<Rightarrow> other | Some s \<Rightarrow> Some s)"

text \<open>
  The expression assigned to \<open>character_df['Actor_Gender']\<close>, in \<open>_clean_data\<close> and
  again in \<open>actor_distributions\<close>:
  \<open>col.fillna("unknown").str.lower().str.strip().map({"m": "male", "f": "female"}).fillna(col)\<close>.
  \<open>map\<close> gives NaN for every value that is not a key of the dict, and the last
  \<open>fillna\<close> fills from the original column, row by row.
\<close>

definition normalize_gender :: "string option \<Rightarrow> string option" where
  "normalize_gender g =
     fillna_series g
       (map_dict [(''m'', ''male''), (''f'', ''female'')]
          (str_strip (str_lower (fillna_value ''unknown'' g))))"

definition is_missing :: "cell \<Rightarrow> bool" where
  "is_missing c = (c = NaN)"

definition clean_character_row :: "(string \<Rightarrow> real option) \<Rightarrow> character_row \<Rightarrow> character_row" where
  "clean_character_row parse_number r =
     r\<lparr>Actor_height := rescale_height (to_numeric parse_number (Actor_height r)),
       Actor_Gender := normalize_gender (Actor_Gender r)\<rparr>"

text \<open>Height conversion, gender normalisation, then
  \<open>character_df.dropna(subset=['Actor_height'], inplace=True)\<close>.\<close>

definition clean_characters ::
  "(string \<Rightarrow> real option) \<Rightarrow> character_row list \<Rightarrow> character_row list" where
  "clean_characters parse_number c =
     filter (\<lambda>r. \<not> is_missing (Actor_height r)) (map (clean_character_row parse_number) c)"

text \<open>
  \<open>_clean_data\<close>. A table that is \<open>None\<close> has no \<open>columns\<close> attribute and cannot be
  subscripted; the movie table is cleaned before the character table is touched.
\<close>

definition clean_data ::
  "(string \<Rightarrow> real option) \<Rightarrow> MovieData \<Rightarrow> (error + unit) \<times> MovieData" where
  "clean_data parse_number self =
     (case movie_df self of
        None \<Rightarrow> (Inl AttributeError, self)
      | Some m \<Rightarrow>
          (let self1 = self\<lparr>movie_df := Some (map clean_movie_row m)\<rparr> in
           case character_df self1 of
             None \<Rightarrow> (Inl TypeError, self1)
           | Some c \<Rightarrow>
               (Inr (), self1\<lparr>character_df := Some (clean_characters parse_number c)\<rparr>)))"

section \<open>Query layer\<close>

subsection \<open>pandas operations\<close>

text \<open>\<open>Series.dropna\<close>.\<close>

fun dropna :: "'a option list \<Rightarrow> 'a list" where
  "dropna [] = []"
| "dropna (None # xs) = dropna xs"
| "dropna (Some x # xs) = x # dropna xs"

text \<open>
  \<open>Series.value_counts\<close>: every distinct value with the number of its occurrences, by
  decreasing count; values with the same count stay in the order of their first
  occurrence.
\<close>

definition value_counts :: "'a list \<Rightarrow> ('a \<times> nat) list" where
  "value_counts xs =
     sort_key (\<lambda>p. - int (snd p)) (map (\<lambda>v. (v, count_list xs v)) (rev (remdups (rev xs))))"

text \<open>\<open>head(n)\<close>: the first \<open>n\<close> rows, and for a negative \<open>n\<close> all rows but the last
  \<open>-n\<close>.\<close>

definition head :: "int \<Rightarrow> 'a list \<Rightarrow> 'a list" where
  "head n xs = (if 0 \<le> n then take (nat n) xs else take (length xs - nat (- n)) xs)"

text \<open>\<open>groupby(key).size().reset_index(...)\<close>: rows with a missing key are left out,
  the keys come in increasing order.\<close>

definition groupby_size :: "('k::linorder) option list \<Rightarrow> ('k \<times> nat) list" where
  "groupby_size ks =
     map (\<lambda>k. (k, count_list (dropna ks) k)) (sort (remdups (dropna ks)))"

text \<open>\<open>pd.to_datetime(col, errors='coerce')\<close>: pandas' parser of the column's strings is
  the parameter \<open>parse_date\<close>; a missing cell and a string it cannot parse give NaT.\<close>

record timestamp =
  year :: int
  month :: nat
  day :: nat

definition to_datetime :: "(string \<Rightarrow> timestamp option) \<Rightarrow> string option \<Rightarrow> timestamp option" where
  "to_datetime parse_date x = (case x of None \<Rightarrow> None | Some s \<Rightarrow> parse_date s)"

text \<open>\<open>Series.str.contains(pat, na=False, case=False)\<close>.\<close>

definition str_contains :: "string \<Rightarrow> string option \<Rightarrow> bool" where
  "str_contains pat x = (case x of None \<Rightarrow> False | Some s \<Rightarrow> contains_nocase pat s)"

subsection \<open>The queries of \<open>moviedata_final.py\<close>\<close>

text \<open>Every method takes the object and returns its result, or the exception it raises,
  together with the object as the call leaves it.\<close>

text \<open>
  What a caller may pass for \<open>N\<close>: an integer, a bool, a float, a string, \<open>None\<close>, or
  any other object that is not an instance of \<open>int\<close> (a numpy integer, a list).
  \<open>isinstance(N, int)\<close> holds for an integer and, \<open>bool\<close> being a subclass of \<open>int\<close>, for
  a bool.
\<close>

datatype pyobject = PyInt int | PyBool bool | PyFloat real | PyStr string | PyNone | PyOther

fun isinstance_int :: "pyobject \<Rightarrow> bool" where
  "isinstance_int (PyInt n) = True"
| "isinstance_int (PyBool b) = True"
| "isinstance_int N = False"

text \<open>The ranking of \<open>movie_type\<close>, before \<open>head\<close>:
  \<open>movie_df['Movie_genres'].dropna().str.split(', ').explode().str.strip().value_counts()\<close>.\<close>

definition genre_counts :: "movie_row list \<Rightarrow> (string \<times> nat) list" where
  "genre_counts m =
     value_counts (map strip (concat (map (split_comma_space []) (dropna (map Movie_genres m)))))"

text \<open>\<open>Series.head(N)\<close> is \<open>iloc[:N]\<close>, and pandas refuses a bool as the bound of a
  positional slice with a \<open>TypeError\<close>.\<close>

fun series_head :: "pyobject \<Rightarrow> 'a list \<Rightarrow> error + 'a list" where
  "series_head (PyInt n) xs = Inr (head n xs)"
| "series_head N xs = Inl TypeError"

text \<open>\<open>movie_type\<close>: the test of \<open>N\<close>, then the ranking cut by \<open>head\<close> when the movie
  table is loaded, and an empty table when it is not.\<close>

definition movie_type ::
  "pyobject \<Rightarrow> MovieData \<Rightarrow> (error + (string \<times> nat) list) \<times> MovieData" where
  "movie_type N self =
     (if \<not> isinstance_int N then (Inl ValueError, self)
      else
        (case movie_df self of
           Some m \<Rightarrow> (series_head N (genre_counts m), self)
         | None \<Rightarrow> (Inr [], self)))"

definition year_of :: "(string \<Rightarrow> timestamp option) \<Rightarrow> movie_row \<Rightarrow> int option" where
  "year_of parse_date r = map_option year (to_datetime parse_date (Movie_release_Date r))"

definition releases ::
  "(string \<Rightarrow> timestamp option) \<Rightarrow> string option \<Rightarrow> MovieData
     \<Rightarrow> (error + (int \<times> nat) list) \<times> MovieData" where
  "releases parse_date genre self =
     (case movie_df self of
        None \<Rightarrow> (Inl ValueError, self)
      | Some m \<Rightarrow>
          (let df = filter (\<lambda>r. year_of parse_date r \<noteq> None) m;
               df' = (case genre of
                        None \<Rightarrow> df
                      | Some g \<Rightarrow>
                          if g = [] then df
                          else filter (\<lambda>r. str_contains g (Movie_genres r)) df)
           in (Inr (groupby_size (map (year_of parse_date) df')), self)))"

definition actor_count :: "MovieData \<Rightarrow> (error + (nat \<times> nat) list) \<times> MovieData" where
  "actor_count self =
     (case character_df self of
        None \<Rightarrow> (Inr [], self)
      | Some c \<Rightarrow>
          if c = [] then (Inr [], self)
          else
            (let actor_count_df = groupby_size (map Wikipedia_movie_ID c)
             in (Inr (groupby_size (map (\<lambda>p. Some (snd p)) actor_count_df)), self)))"

definition ages ::
  "(string \<Rightarrow> timestamp option) \<Rightarrow> string \<Rightarrow> MovieData
     \<Rightarrow> (error + (int \<times> nat) list) \<times> MovieData" where
  "ages parse_date unit self =
     (case character_df self of
        None \<Rightarrow> (Inl ValueError, self)
      | Some c \<Rightarrow>
          (let dates = map (\<lambda>r. to_datetime parse_date (Actor_date_of_birth r)) c
           in if unit = ''M''
              then (Inr (groupby_size (map (map_option (\<lambda>d. int (month d))) dates)), self)
              else (Inr (groupby_size (map (map_option year) dates)), self)))"

text \<open>A comparison of the height column with a number: false for a missing cell, a
  \<open>TypeError\<close> when the column holds a string.\<close>

fun is_str :: "cell \<Rightarrow> bool" where
  "is_str (Str s) = True"
| "is_str c = False"

fun height_between :: "real \<Rightarrow> real \<Rightarrow> cell \<Rightarrow> bool" where
  "height_between lo hi (Num h) = (lo \<le> h \<and> h \<le> hi)"
| "height_between lo hi c = False"

definition actor_distributions ::
  "string \<Rightarrow> real \<Rightarrow> real \<Rightarrow> MovieData
     \<Rightarrow> (error + (string option \<times> cell) list) \<times> MovieData" where
  "actor_distributions gender min_height max_height self =
     (case character_df self of
        None \<Rightarrow> (Inr [], self)
      | Some c \<Rightarrow>
          if c = [] then (Inr [], self)
          else
            (let c' = map (\<lambda>r. r\<lparr>Actor_Gender := normalize_gender (Actor_Gender r)\<rparr>) c;
                 self' = self\<lparr>character_df := Some c'\<rparr>
             in if list_ex (\<lambda>r. is_str (Actor_height r)) c' then (Inl TypeError, self')
                else
                  (let filtered_df = filter (\<lambda>r. height_between min_height max_height (Actor_height r)) c';
                       filtered_df' =
                         (if lower gender \<noteq> ''all''
                          then filter (\<lambda>r. str_lower (Actor_Gender r) = Some (lower gender)) filtered_df
                          else filtered_df)
                   in if filtered_df' = [] then (Inr [], self')
                      else (Inr (map (\<lambda>r. (Actor_Gender r, Actor_height r)) filtered_df'), self'))))"

subsection \<open>\<open>actor_distributions\<close> of \<open>moviedata.py\<close>\<close>

text \<open>The parameters come in the order \<open>gender, max_height, min_height\<close>. The heights are
  numbers here, so the \<open>isinstance\<close> test passes.\<close>

definition actor_distributions_moviedata ::
  "string \<Rightarrow> real \<Rightarrow> real \<Rightarrow> MovieData \<Rightarrow> (error + character_row list) \<times> MovieData" where
  "actor_distributions_moviedata gender max_height min_height self =
     (case character_df self of
        None \<Rightarrow> (Inl ValueError, self)
      | Some c \<Rightarrow>
          if lower gender \<notin> set [''m'', ''f''] then (Inl ValueError, self)
          else if min_height > max_height then (Inl ValueError, self)
          else if list_ex (\<lambda>r. is_str (Actor_height r)) c then (Inl TypeError, self)
          else
            (Inr (filter (\<lambda>r. str_lower (Actor_Gender r) = Some (lower gender)
                              \<and> height_between min_height max_height (Actor_height r)) c), self))"

section \<open>Sample data\<close>

text \<open>Rows in the format of the dataset, and the parsers of pandas restricted to the
  strings of the sample, for evaluating the functions on concrete tables.\<close>

definition sample_character :: character_row where
  "sample_character =
     \<lparr>Wikipedia_movie_ID = Some 975900,
      Freebase_movie_ID = Some ''/m/03vyhn'',
      Movie_release_date = Some ''2001-08-24'',
      Character_name = Some ''Akooshay'',
      Actor_date_of_birth = Some ''1958-08-26'',
      Actor_Gender = Some ''F'',
      Actor_height = Num 1.62,
      Actor_ethnicity = None,
      Actor_name = Some ''Wanda De Jesus'',
      Actor_age_at_movie_release = Num 42,
      Freebase_character_actor_map_ID = Some ''/m/0bgchxw'',
      Freebase_character_ID = Some ''/m/0bgcj3x'',
      Freebase_actor_ID = Some ''/m/03wcfv7''\<rparr>"

definition sample_characters :: "character_row list" where
  "sample_characters =
     [sample_character,
      sample_character\<lparr>Actor_Gender := Some ''M'', Actor_height := Num 175,
        Actor_date_of_birth := Some ''1969-06-15''\<rparr>,
      sample_character\<lparr>Wikipedia_movie_ID := Some 3196793, Actor_Gender := Some ''M'',
        Actor_height := NaN, Actor_date_of_birth := None\<rparr>,
      sample_character\<lparr>Wikipedia_movie_ID := Some 3196793, Actor_Gender := None,
        Actor_height := Str ''1.8'', Actor_date_of_birth := Some ''1958-08-26''\<rparr>]"

definition sample_movie :: movie_row where
  \<open>sample_movie =
     \<lparr>Wikipedia_movie_ID_m = Some 975900,
      Freebase_movie_ID_m = Some ''/m/03vyhn'',
      Movie_Name = Some ''Ghosts of Mars'',
      Movie_release_Date = Some ''2001-08-24'',
      Movie_box_office_revenue = Num 14010832,
      Movie_runtime = Num 98,
      Movie_languages = Some ''{"/m/02h40lc": "English Language"}'',
      Movie_countries = Some ''{"/m/09c7w0": "United States of America"}'',
      Movie_genres = Some ''{"/m/01jfsb": "Thriller", "/m/03npn": "Horror"}''\<rparr>\<close>

definition sample_movies :: "movie_row list" where
  \<open>sample_movies =
     [sample_movie,
      sample_movie\<lparr>Wikipedia_movie_ID_m := Some 9363483, Movie_Name := Some ''White Of The Eye'',
        Movie_release_Date := Some ''1987'',
        Movie_genres := Some ''{"/m/01jfsb": "Thriller"}''\<rparr>,
      sample_movie\<lparr>Wikipedia_movie_ID_m := Some 261236, Movie_Name := Some ''A Woman in Flames'',
        Movie_release_Date := Some ''2001-01-05'',
        Movie_genres := Some ''{"/m/01z4y": "Comedy", "/m/07s9rl0": "Drama"}''\<rparr>,
      sample_movie\<lparr>Wikipedia_movie_ID_m := Some 13696889, Movie_Name := Some ''The Gangsters'',
        Movie_release_Date := None,
        Movie_genres := Some ''{"/m/05p553": "Comedy film"}''\<rparr>]\<close>

definition sample_parse_number :: "string \<Rightarrow> real option" where
  "sample_parse_number = map_of [(''1.8'', 1.8), (''175'', 175)]"

definition sample_parse_date :: "string \<Rightarrow> timestamp option" where
  "sample_parse_date =
     map_of [(''2001-08-24'', \<lparr>year = 2001, month = 8, day = 24\<rparr>),
             (''2001-01-05'', \<lparr>year = 2001, month = 1, day = 5\<rparr>),
             (''1987'', \<lparr>year = 1987, month = 1, day = 1\<rparr>),
             (''1958-08-26'', \<lparr>year = 1958, month = 8, day = 26\<rparr>),
             (''1969-06-15'', \<lparr>year = 1969, month = 6, day = 15\<rparr>)]"

definition sample_data :: MovieData where
  "sample_data = \<lparr>movie_df = Some sample_movies, character_df = Some sample_characters\<rparr>"

definition sample_os :: os_state where
  "sample_os = \<lparr>cwd = ''/home/user/app'', written = []\<rparr>"

definition sample_archive :: "TarInfo list" where
  "sample_archive =
     [\<lparr>name = ''MovieSummaries/movie.metadata.tsv''\<rparr>, \<lparr>name = ''../../evil''\<rparr>]"

section \<open>Gender normalisation\<close>

lemma lower_char_idem: "lower_char (lower_char c) = lower_char c"
  by (simp add: lower_char_def Let_def)

lemma lower_idem: "lower (lower s) = lower s"
  by (simp add: lower_def lower_char_idem)

lemma normalize_gender_Some:
  "normalize_gender (Some g) =
     (if strip (lower g) = ''m'' then Some ''male''
      else if strip (lower g) = ''f'' then Some ''female''
      else Some g)"
  by (simp add: normalize_gender_def fillna_series_def map_dict_def str_strip_def
      str_lower_def fillna_value_def)

text \<open>A missing gender is filled with \<open>"unknown"\<close>, which is not a key of the dict, so
  \<open>map\<close> makes it missing again and the last \<open>fillna\<close> finds nothing in the original
  column to fill it with.\<close>

lemma normalize_gender_None: "normalize_gender None = None"
proof -
  have "strip (lower ''unknown'') = ''unknown''" by code_simp
  then show ?thesis
    by (simp add: normalize_gender_def fillna_series_def map_dict_def str_strip_def
        str_lower_def fillna_value_def)
qed

lemma strip_lower_male: "strip (lower ''male'') = ''male''"
  by code_simp

lemma strip_lower_female: "strip (lower ''female'') = ''female''"
  by code_simp

lemma normalize_gender_idem: "normalize_gender (normalize_gender g) = normalize_gender g"
proof (cases g)
  case None
  then show ?thesis by (simp add: normalize_gender_None)
next
  case (Some s)
  then show ?thesis
    by (simp add: normalize_gender_Some strip_lower_male strip_lower_female)
qed

text \<open>
  Claim C3 as stated fails: an unrecognised gender code is not mapped to
  \<open>"unknown"\<close>. The cell \<open>"x"\<close> is neither \<open>m\<close> nor \<open>f\<close> after lowercasing and trimming,
  so \<open>map\<close> yields NaN and \<open>fillna\<close> puts the original \<open>"x"\<close> back.
\<close>

theorem gender_unrecognized_counterexample:
  "normalize_gender (Some ''x'') \<noteq> Some ''unknown''"
proof -
  have "strip (lower ''x'') = ''x''" by code_simp
  then show ?thesis by (simp add: normalize_gender_Some)
qed

text \<open>
  Claim C3, amended: for every gender cell that holds a string, cleaning lowercases and
  trims it to decide: when the result is \<open>m\<close> the cell becomes \<open>"male"\<close>, when it is
  \<open>f\<close> the cell becomes \<open>"female"\<close>, and every other cell is left exactly as it was, the
  expanded values \<open>"male"\<close> and \<open>"female"\<close> and unrecognised codes alike. In particular
  \<open>"M"\<close>, \<open>"m"\<close> and \<open>" M "\<close> all become \<open>"male"\<close>.
\<close>

theorem gender_normalization_amended:
  "(strip (lower g) = ''m'' \<longrightarrow> normalize_gender (Some g) = Some ''male'')
   \<and> (strip (lower g) = ''f'' \<longrightarrow> normalize_gender (Some g) = Some ''female'')
   \<and> (strip (lower g) \<noteq> ''m'' \<and> strip (lower g) \<noteq> ''f'' \<longrightarrow> normalize_gender (Some g) = Some g)
   \<and> normalize_gender (Some ''M'') = Some ''male''
   \<and> normalize_gender (Some ''m'') = Some ''male''
   \<and> normalize_gender (Some '' M '') = Some ''male''
   \<and> normalize_gender (Some ''male'') = Some ''male''
   \<and> normalize_gender (Some ''female'') = Some ''female''"
proof -
  have a: "strip (lower ''M'') = ''m''" by code_simp
  have b: "strip (lower ''m'') = ''m''" by code_simp
  have c: "strip (lower '' M '') = ''m''" by code_simp
  show ?thesis
    by (simp add: normalize_gender_Some a b c strip_lower_male strip_lower_female)
qed

theorem gender_normalization_amended_witness:
  "strip (lower '' F '') = ''f'' \<and> normalize_gender (Some '' F '') = Some ''female''
   \<and> strip (lower ''Female'') = ''female'' \<and> normalize_gender (Some ''Female'') = Some ''Female''"
proof -
  have a: "strip (lower '' F '') = ''f''" by code_simp
  have b: "strip (lower ''Female'') = ''female''" by code_simp
  from gender_normalization_amended [of "'' F ''"] a
  have c: "normalize_gender (Some '' F '') = Some ''female''" by blast
  from gender_normalization_amended [of "''Female''"] b
  have d: "normalize_gender (Some ''Female'') = Some ''Female''" by simp
  from a b c d show ?thesis by blast
qed

section \<open>Cleaning: rows with a missing height\<close>

lemma rescale_to_numeric_cases:
  "rescale_height (to_numeric pf x) = NaN \<or> (\<exists>h. rescale_height (to_numeric pf x) = Num h)"
  by (cases x) (auto split: option.splits)

lemma rescale_NaN_iff: "rescale_height x = NaN \<longleftrightarrow> x = NaN"
  by (cases x) auto

lemma clean_characters_alt:
  "clean_characters pf c =
     map (clean_character_row pf) (filter (\<lambda>r. to_numeric pf (Actor_height r) \<noteq> NaN) c)"
  by (simp add: clean_characters_def filter_map comp_def is_missing_def
      clean_character_row_def rescale_NaN_iff)

lemma clean_characters_numeric:
  assumes "r \<in> set (clean_characters pf c)"
  shows "\<exists>h. Actor_height r = Num h"
proof -
  from assms obtain r0 where
    r: "r = clean_character_row pf r0" and nm: "\<not> is_missing (Actor_height r)"
    by (auto simp: clean_characters_def)
  from rescale_to_numeric_cases [of pf "Actor_height r0"] r nm show ?thesis
    by (auto simp: clean_character_row_def is_missing_def)
qed

lemma clean_data_ok:
  "clean_data pf self = (Inr (), self') \<Longrightarrow>
     \<exists>m c. movie_df self = Some m \<and> character_df self = Some c
       \<and> self' = self\<lparr>movie_df := Some (map clean_movie_row m),
                        character_df := Some (clean_characters pf c)\<rparr>"
  by (auto simp: clean_data_def Let_def split: option.splits)

lemma sample_clean:
  "clean_data sample_parse_number sample_data =
    (Inr (), \<lparr>movie_df = Some (map clean_movie_row sample_movies),
              character_df = Some (clean_characters sample_parse_number sample_characters)\<rparr>)"
  by (simp add: clean_data_def sample_data_def)

lemma sample_clean_characters:
  "clean_characters sample_parse_number sample_characters =
     [sample_character\<lparr>Actor_Gender := Some ''female'', Actor_height := Num 162\<rparr>,
      sample_character\<lparr>Actor_Gender := Some ''male'', Actor_height := Num 175,
        Actor_date_of_birth := Some ''1969-06-15''\<rparr>,
      sample_character\<lparr>Wikipedia_movie_ID := Some 3196793, Actor_Gender := None,
        Actor_height := Num 180, Actor_date_of_birth := Some ''1958-08-26''\<rparr>]"
  by code_simp

text \<open>
  Claim C9 as stated fails: a character table whose only row has a missing height is
  empty after \<open>_clean_data\<close>, because \<open>dropna(subset=['Actor_height'], inplace=True)\<close>
  removes the row from the stored table.
\<close>

theorem clean_drops_missing_height_counterexample:
  "character_df (snd (clean_data sample_parse_number
      \<lparr>movie_df = Some [],
       character_df = Some [sample_character\<lparr>Actor_height := NaN\<rparr>]\<rparr>)) = Some []"
  by (simp add: clean_data_def clean_characters_def clean_character_row_def is_missing_def)

text \<open>
  Claim C9, amended: cleaning drops the rows with a missing height from the stored
  character table itself. After a successful \<open>_clean_data\<close> the stored table holds
  exactly the cleaned rows whose height resolved to a number, in their original order,
  and every row of it has a numeric height.
\<close>

theorem clean_drops_missing_height_globally:
  assumes "clean_data pf self = (Inr (), self')"
  shows "\<exists>c c'. character_df self = Some c \<and> character_df self' = Some c'
           \<and> c' = map (clean_character_row pf)
                    (filter (\<lambda>r. to_numeric pf (Actor_height r) \<noteq> NaN) c)
           \<and> (\<forall>r\<in>set c'. \<exists>h. Actor_height r = Num h)"
proof -
  from clean_data_ok [OF assms] obtain m c where
    c: "character_df self = Some c" and
    s: "self' = self\<lparr>movie_df := Some (map clean_movie_row m),
                      character_df := Some (clean_characters pf c)\<rparr>"
    by blast
  from s have c': "character_df self' = Some (clean_characters pf c)" by simp
  show ?thesis
    using c c' clean_characters_alt [of pf c] clean_characters_numeric [of _ pf c] by auto
qed

theorem clean_drops_missing_height_globally_witness:
  "clean_data sample_parse_number sample_data =
     (Inr (), \<lparr>movie_df = Some (map clean_movie_row sample_movies),
               character_df = Some (clean_characters sample_parse_number sample_characters)\<rparr>)
   \<and> (\<exists>c c'. character_df sample_data = Some c
         \<and> clean_characters sample_parse_number sample_characters = c'
         \<and> c' = map (clean_character_row sample_parse_number)
                  (filter (\<lambda>r. to_numeric sample_parse_number (Actor_height r) \<noteq> NaN) c)
         \<and> length c = 4 \<and> length c' = 3
         \<and> (\<forall>r\<in>set c'. \<exists>h. Actor_height r = Num h))"
proof -
  have len: "length sample_characters = 4"
    by (simp add: sample_characters_def)
  have len': "length (clean_characters sample_parse_number sample_characters) = 3"
    by (simp add: sample_clean_characters)
  from clean_drops_missing_height_globally [OF sample_clean] len len' sample_clean
  show ?thesis
    by (auto simp: sample_data_def)
qed

section \<open>Cleaning twice\<close>

lemma emit_Some: "emit t r = Some ts \<Longrightarrow> \<exists>ts'. r = Some ts' \<and> ts = t # ts'"
  by (cases r) auto

text \<open>A text that lexes to tokens with an opening brace contains the character.\<close>

lemma lex_brace:
  "lex st s = Some ts \<Longrightarrow> LBrace \<in> set ts \<Longrightarrow> CHR ''{'' \<in> set s"
proof (induction st s arbitrary: ts rule: lex.induct)
  case 1
  then show ?case by simp
next
  case (2 q acc)
  then show ?case by simp
next
  case (3 c cs)
  then show ?case
    by (auto split: if_splits dest!: emit_Some)
next
  case (4 q acc c cs)
  then show ?case
    by (auto split: if_splits dest!: emit_Some)
qed

lemma literal_eval_brace: "literal_eval s = Some d \<Longrightarrow> CHR ''{'' \<in> set s"
  by (auto simp: literal_eval_def split: option.splits list.splits token.splits
      dest: lex_brace)

lemma safe_eval_no_brace: "CHR ''{'' \<notin> set t \<Longrightarrow> safe_eval (Some t) = Some []"
  using literal_eval_brace [of t] by (cases "literal_eval t") (auto simp: safe_eval_def)

lemma safe_eval_None: "safe_eval None = None"
  by (simp add: safe_eval_def)

lemma safe_eval_empty: "safe_eval (Some []) = Some []"
  by (simp add: safe_eval_no_brace)

lemma rescale_stable:
  "h = 0 \<or> 1 / 10 \<le> h \<Longrightarrow> rescale_height (rescale_height (Num h)) = rescale_height (Num h)"
  by auto

text \<open>A height under 0.1 is rescaled again by a second pass.\<close>

lemma rescale_unstable:
  "rescale_height (Num 0.05) = Num 5 \<and> rescale_height (Num 5) = Num 500"
  by simp

lemma clean_character_row_fixed:
  assumes "\<forall>h. to_numeric pf (Actor_height r) = Num h \<longrightarrow> h = 0 \<or> 1 / 10 \<le> h"
    and "\<not> is_missing (Actor_height (clean_character_row pf r))"
  shows "clean_character_row pf (clean_character_row pf r) = clean_character_row pf r"
proof -
  from assms(2) obtain h where h: "to_numeric pf (Actor_height r) = Num h"
    by (cases "to_numeric pf (Actor_height r)")
      (auto simp: clean_character_row_def is_missing_def split: option.splits elim: to_numeric.elims)
  with assms(1) have st: "h = 0 \<or> 1 / 10 \<le> h" by blast
  obtain h' where h': "rescale_height (Num h) = Num h'" by (cases "h < 10") auto
  from rescale_stable [OF st] h' have "rescale_height (Num h') = Num h'" by simp
  with h h' show ?thesis
    by (simp add: clean_character_row_def normalize_gender_idem)
qed

lemma clean_characters_idem:
  assumes "\<forall>r\<in>set c. \<forall>h. to_numeric pf (Actor_height r) = Num h \<longrightarrow> h = 0 \<or> 1 / 10 \<le> h"
  shows "clean_characters pf (clean_characters pf c) = clean_characters pf c"
proof -
  have fixed: "clean_character_row pf r' = r'" if "r' \<in> set (clean_characters pf c)" for r'
  proof -
    from that obtain r where "r \<in> set c" "r' = clean_character_row pf r"
      "\<not> is_missing (Actor_height r')"
      by (auto simp: clean_characters_def)
    with assms clean_character_row_fixed [of pf r] show ?thesis by auto
  qed
  then have "map (clean_character_row pf) (clean_characters pf c) = clean_characters pf c"
    by (simp add: map_idI)
  moreover have "filter (\<lambda>r. \<not> is_missing (Actor_height r)) (clean_characters pf c)
      = clean_characters pf c"
    by (simp add: clean_characters_def)
  ultimately show ?thesis
    by (simp add: clean_characters_def [of pf "clean_characters pf c"])
qed

lemma sample_genre_once:
  \<open>safe_eval (Some ''{"/m/01z4y": "Comedy", "/m/07s9rl0": "Drama"}'') = Some ''Comedy, Drama''\<close>
  by code_simp

lemma sample_genre_twice: "safe_eval (Some ''Comedy, Drama'') = Some []"
  by (rule safe_eval_no_brace) simp

text \<open>
  Claim C4 as stated fails: the first pass turns the serialised genre map into
  \<open>Comedy, Drama\<close>; the second pass hands that text to \<open>literal_eval\<close> again, which
  raises, and \<open>safe_eval\<close> stores the empty string. The sample tables cleaned twice
  therefore differ from the sample tables cleaned once.
\<close>

theorem clean_not_idempotent_counterexample:
  \<open>safe_eval (Some ''{"/m/01z4y": "Comedy", "/m/07s9rl0": "Drama"}'') = Some ''Comedy, Drama''
   \<and> safe_eval (Some ''Comedy, Drama'') = Some []
   \<and> snd (clean_data sample_parse_number (snd (clean_data sample_parse_number sample_data)))
       \<noteq> snd (clean_data sample_parse_number sample_data)\<close>
proof -
  have a: "map Movie_genres (map clean_movie_row sample_movies)
      = [Some ''Thriller, Horror'', Some ''Thriller'', Some ''Comedy, Drama'', Some ''Comedy film'']"
    by code_simp
  have b: "map Movie_genres (map clean_movie_row (map clean_movie_row sample_movies))
      = [Some [], Some [], Some [], Some []]"
    by code_simp
  have "movie_df (snd (clean_data sample_parse_number (snd (clean_data sample_parse_number sample_data))))
      = Some (map clean_movie_row (map clean_movie_row sample_movies))"
    by (simp add: clean_data_def sample_data_def)
  moreover have "movie_df (snd (clean_data sample_parse_number sample_data))
      = Some (map clean_movie_row sample_movies)"
    by (simp add: clean_data_def sample_data_def)
  ultimately have "snd (clean_data sample_parse_number (snd (clean_data sample_parse_number sample_data)))
       \<noteq> snd (clean_data sample_parse_number sample_data)"
  proof (intro notI)
    assume e: "snd (clean_data sample_parse_number (snd (clean_data sample_parse_number sample_data)))
       = snd (clean_data sample_parse_number sample_data)"
    assume m2: "movie_df (snd (clean_data sample_parse_number (snd (clean_data sample_parse_number sample_data))))
      = Some (map clean_movie_row (map clean_movie_row sample_movies))"
    assume m1: "movie_df (snd (clean_data sample_parse_number sample_data))
      = Some (map clean_movie_row sample_movies)"
    from e m1 m2 have "map clean_movie_row (map clean_movie_row sample_movies)
      = map clean_movie_row sample_movies" by simp
    then have "map Movie_genres (map clean_movie_row (map clean_movie_row sample_movies))
      = map Movie_genres (map clean_movie_row sample_movies)" by simp
    with a b show False by simp
  qed
  with sample_genre_once sample_genre_twice show ?thesis by blast
qed

text \<open>
  Claim C4, amended: a second application of the cleaning step succeeds and leaves the
  character table (heights, genders and the rows kept) as the first application left
  it, provided every height that resolves to a number is 0 or at least 0.1. On the
  movie table the second application is not the identity: it applies \<open>safe_eval\<close> to
  every genre, country and language cell again, which leaves a missing cell and an
  empty cell unchanged and replaces every cell without an opening brace, so every
  comma-joined list of ordinary names, by the empty string.
\<close>

theorem clean_idempotent_amended:
  assumes "clean_data pf self = (Inr (), s1)"
    and "character_df self = Some c"
    and "\<forall>r\<in>set c. \<forall>h. to_numeric pf (Actor_height r) = Num h \<longrightarrow> h = 0 \<or> 1 / 10 \<le> h"
  shows "\<exists>s2 m1. clean_data pf s1 = (Inr (), s2)
           \<and> character_df s2 = character_df s1
           \<and> movie_df s1 = Some m1 \<and> movie_df s2 = Some (map clean_movie_row m1)
           \<and> safe_eval None = None
           \<and> safe_eval (Some []) = Some []
           \<and> (\<forall>t. CHR ''{'' \<notin> set t \<longrightarrow> safe_eval (Some t) = Some [])"
proof -
  from clean_data_ok [OF assms(1)] assms(2) obtain m where
    s1: "s1 = self\<lparr>movie_df := Some (map clean_movie_row m),
                    character_df := Some (clean_characters pf c)\<rparr>"
    by auto
  let ?s2 = "s1\<lparr>movie_df := Some (map clean_movie_row (map clean_movie_row m)),
                character_df := Some (clean_characters pf (clean_characters pf c))\<rparr>"
  from s1 have run: "clean_data pf s1 = (Inr (), ?s2)"
    by (simp add: clean_data_def)
  from s1 clean_characters_idem [OF assms(3)] have "character_df ?s2 = character_df s1"
    by simp
  moreover from s1 have "movie_df s1 = Some (map clean_movie_row m)" by simp
  moreover have "movie_df ?s2 = Some (map clean_movie_row (map clean_movie_row m))" by simp
  ultimately show ?thesis
    using run safe_eval_None safe_eval_empty safe_eval_no_brace by blast
qed

theorem clean_idempotent_amended_witness:
  "clean_data sample_parse_number sample_data =
     (Inr (), \<lparr>movie_df = Some (map clean_movie_row sample_movies),
               character_df = Some (clean_characters sample_parse_number sample_characters)\<rparr>)
   \<and> character_df sample_data = Some sample_characters
   \<and> list_all (\<lambda>r. case to_numeric sample_parse_number (Actor_height r) of
                      Num h \<Rightarrow> h = 0 \<or> 1 / 10 \<le> h | _ \<Rightarrow> True) sample_characters
   \<and> (\<exists>s2. clean_data sample_parse_number
           \<lparr>movie_df = Some (map clean_movie_row sample_movies),
            character_df = Some (clean_characters sample_parse_number sample_characters)\<rparr>
             = (Inr (), s2)
         \<and> character_df s2 = Some (clean_characters sample_parse_number sample_characters)
         \<and> movie_df s2 = Some (map clean_movie_row (map clean_movie_row sample_movies)))"
proof -
  have c: "character_df sample_data = Some sample_characters"
    by (simp add: sample_data_def)
  have h: "\<forall>r\<in>set sample_characters.
      \<forall>h. to_numeric sample_parse_number (Actor_height r) = Num h \<longrightarrow> h = 0 \<or> 1 / 10 \<le> h"
    by (simp add: sample_characters_def sample_character_def sample_parse_number_def)
  have l: "list_all (\<lambda>r. case to_numeric sample_parse_number (Actor_height r) of
                      Num h \<Rightarrow> h = 0 \<or> 1 / 10 \<le> h | _ \<Rightarrow> True) sample_characters"
    by (simp add: sample_characters_def sample_character_def sample_parse_number_def)
  from clean_idempotent_amended [OF sample_clean c h] sample_clean c l
  show ?thesis by auto
qed


section \<open>Extractor: entries that leave the target directory\<close>

text \<open>
  Claim C1 fails on \<open>_extract_data\<close> of \<open>moviedata_final.py\<close>, which calls
  \<open>extractall\<close> without looking at the member names. For an archive with a regular
  member followed by \<open>../../evil\<close>: under a Python whose \<open>extractall\<close> trusts the
  archive both members are written and the call succeeds, the second one at
  \<open>/home/user/evil\<close>, outside \<open>downloads\<close>; under a Python whose \<open>extractall\<close> applies
  the data filter the library raises at the second member, after the first one has been
  written. In neither case is the extraction rejected before any file is written.
\<close>

theorem extract_data_no_traversal_check:
  "extract_data fully_trusted sample_archive sample_os =
     (Inr (), \<lparr>cwd = ''/home/user/app'',
               written = [''/home/user/app/downloads/MovieSummaries/movie.metadata.tsv'',
                          ''/home/user/evil'']\<rparr>)
   \<and> \<not> is_within (abspath ''/home/user/app'' download_dir) ''/home/user/evil''
   \<and> extract_data data_filter sample_archive sample_os =
     (Inl OutsideDestinationError, \<lparr>cwd = ''/home/user/app'',
               written = [''/home/user/app/downloads/MovieSummaries/movie.metadata.tsv'']\<rparr>)"
  by code_simp

text \<open>\<open>_extract_data\<close> of \<open>moviedata.py\<close> does check the members first and rejects the
  same archive with nothing written.\<close>

lemma extract_data_moviedata_rejects:
  "extract_data_moviedata flt sample_archive sample_os = (Inl PathTraversal, sample_os)"
  by (cases flt; code_simp)

text \<open>Its check compares characters, not path components: a member in a sibling
  directory whose name starts with \<open>downloads\<close> passes it.\<close>

lemma extract_data_moviedata_sibling_directory:
  "extract_data_moviedata fully_trusted [\<lparr>name = ''../downloads_evil/x''\<rparr>] sample_os =
     (Inr (), \<lparr>cwd = ''/home/user/app'', written = [''/home/user/app/downloads_evil/x'']\<rparr>)
   \<and> \<not> is_within (abspath ''/home/user/app'' download_dir) ''/home/user/app/downloads_evil/x''"
  by code_simp

section \<open>Grouping\<close>

lemma set_dropna: "set (dropna xs) = {k. Some k \<in> set xs}"
  by (induction xs rule: dropna.induct) auto

lemma dropna_map_Some: "dropna (map (\<lambda>p. Some (f p)) xs) = map f xs"
  by (induction xs) auto

lemma sum_count_remdups: "sum_list (map (count_list xs) (sort (remdups xs))) = length xs"
proof -
  have "sum_list (map (count_list xs) (sort (remdups xs))) = sum (count_list xs) (set xs)"
    by (simp add: sum_list_distinct_conv_sum_set)
  also have "\<dots> = length xs"
    by (rule sum_count_set) simp_all
  finally show ?thesis .
qed

lemma groupby_size_sum: "sum_list (map snd (groupby_size ks)) = length (dropna ks)"
  by (simp add: groupby_size_def comp_def sum_count_remdups)

lemma groupby_size_length: "length (groupby_size ks) = card (set (dropna ks))"
  by (simp add: groupby_size_def length_remdups_card_conv)

lemma groupby_size_mem:
  "(k, n) \<in> set (groupby_size ks) \<longleftrightarrow> Some k \<in> set ks \<and> n = count_list (dropna ks) k"
  by (auto simp: groupby_size_def set_dropna)

lemma groupby_size_keys: "fst ` set (groupby_size ks) = {k. Some k \<in> set ks}"
  by (auto simp: groupby_size_def set_dropna image_iff)

lemma count_dropna_filter:
  "count_list (dropna (map f (filter Q xs))) k \<le> count_list (dropna (map f xs)) k"
proof (induction xs)
  case Nil
  then show ?case by simp
next
  case (Cons x xs)
  then show ?case by (cases "f x") auto
qed

section \<open>Actor-count histogram\<close>

text \<open>
  Claim C7: \<open>actor_count\<close> never raises; when the character table is loaded, the
  movie counts of its result sum to the number of distinct movie identifiers that occur
  in at least one character row; for an empty character table the result is empty.
\<close>

theorem actor_count_sums_to_distinct_movies:
  "\<exists>rows. fst (actor_count self) = Inr rows
     \<and> (\<forall>c. character_df self = Some c \<longrightarrow>
           sum_list (map snd rows) = card {k. \<exists>r\<in>set c. Wikipedia_movie_ID r = Some k})
     \<and> (character_df self = Some [] \<longrightarrow> rows = [])"
proof (cases "character_df self")
  case None
  then show ?thesis by (simp add: actor_count_def)
next
  case (Some c)
  have ids: "{k. \<exists>r\<in>set c. Wikipedia_movie_ID r = Some k} = set (dropna (map Wikipedia_movie_ID c))"
    by (force simp: set_dropna image_iff)
  show ?thesis
  proof (cases "c = []")
    case True
    with Some show ?thesis by (simp add: actor_count_def)
  next
    case False
    with Some have "fst (actor_count self) =
        Inr (groupby_size (map (\<lambda>p. Some (snd p)) (groupby_size (map Wikipedia_movie_ID c))))"
      by (simp add: actor_count_def)
    moreover have "sum_list (map snd (groupby_size (map (\<lambda>p. Some (snd p))
        (groupby_size (map Wikipedia_movie_ID c))))) = card (set (dropna (map Wikipedia_movie_ID c)))"
      by (simp add: groupby_size_sum dropna_map_Some groupby_size_length)
    ultimately show ?thesis using Some False ids by simp
  qed
qed

theorem actor_count_sums_to_distinct_movies_witness:
  "fst (actor_count sample_data) = Inr [(2, 2)]
   \<and> card {k. \<exists>r\<in>set sample_characters. Wikipedia_movie_ID r = Some k} = 2
   \<and> fst (actor_count \<lparr>movie_df = None, character_df = Some []\<rparr>) = Inr []"
proof -
  have ev: "fst (actor_count sample_data) = Inr [(2, 2)]"
    by code_simp
  have c: "character_df sample_data = Some sample_characters"
    by (simp add: sample_data_def)
  from actor_count_sums_to_distinct_movies [of sample_data] ev c
  have n: "card {k. \<exists>r\<in>set sample_characters. Wikipedia_movie_ID r = Some k} = 2"
    by auto
  from actor_count_sums_to_distinct_movies [of "\<lparr>movie_df = None, character_df = Some []\<rparr>"]
  have e: "fst (actor_count \<lparr>movie_df = None, character_df = Some []\<rparr>) = Inr []"
    by auto
  from ev n e show ?thesis by blast
qed

section \<open>Releases per year\<close>

text \<open>
  Claim C8: for every loaded movie table, the result of \<open>releases("Comedy")\<close> is a
  per-year subset of the result of \<open>releases(None)\<close>: every year of the filtered result
  is a year of the unfiltered result with a count at least as large, and a year is in
  the filtered result exactly when some movie whose release date parses to that year
  has a genre string that contains \<open>Comedy\<close>, compared without regard to case.
\<close>

theorem releases_comedy_subset:
  assumes "movie_df self = Some m"
  shows "\<exists>U F. fst (releases pd None self) = Inr U
           \<and> fst (releases pd (Some ''Comedy'') self) = Inr F
           \<and> (\<forall>(y, n)\<in>set F. \<exists>n'. (y, n') \<in> set U \<and> n \<le> n')
           \<and> (\<forall>y. y \<in> fst ` set F \<longleftrightarrow>
                 (\<exists>r\<in>set m. year_of pd r = Some y \<and> str_contains ''Comedy'' (Movie_genres r)))"
proof -
  define df where "df = filter (\<lambda>r. year_of pd r \<noteq> None) m"
  define comedy where "comedy = (\<lambda>r::movie_row. str_contains ''Comedy'' (Movie_genres r))"
  let ?U = "groupby_size (map (year_of pd) df)"
  let ?F = "groupby_size (map (year_of pd) (filter comedy df))"
  from assms have u: "fst (releases pd None self) = Inr ?U"
    by (simp add: releases_def df_def)
  from assms have f: "fst (releases pd (Some ''Comedy'') self) = Inr ?F"
    by (simp add: releases_def df_def comedy_def)
  have sub: "\<forall>(y, n)\<in>set ?F. \<exists>n'. (y, n') \<in> set ?U \<and> n \<le> n'"
  proof clarify
    fix y n
    assume "(y, n) \<in> set ?F"
    then have in_f: "Some y \<in> set (map (year_of pd) (filter comedy df))"
      and n: "n = count_list (dropna (map (year_of pd) (filter comedy df))) y"
      by (simp_all only: groupby_size_mem)
    from in_f have "Some y \<in> set (map (year_of pd) df)" by auto
    then have "(y, count_list (dropna (map (year_of pd) df)) y) \<in> set ?U"
      by (simp only: groupby_size_mem)
    moreover from n have "n \<le> count_list (dropna (map (year_of pd) df)) y"
      by (simp only: count_dropna_filter)
    ultimately show "\<exists>n'. (y, n') \<in> set ?U \<and> n \<le> n'" by blast
  qed
  have keys: "\<forall>y. y \<in> fst ` set ?F \<longleftrightarrow>
      (\<exists>r\<in>set m. year_of pd r = Some y \<and> str_contains ''Comedy'' (Movie_genres r))"
  proof
    fix y
    have "y \<in> fst ` set ?F \<longleftrightarrow> Some y \<in> set (map (year_of pd) (filter comedy df))"
      by (simp only: groupby_size_keys mem_Collect_eq)
    also have "\<dots> \<longleftrightarrow> (\<exists>r\<in>set m. year_of pd r = Some y \<and> comedy r)"
      by (force simp: df_def image_iff)
    finally show "y \<in> fst ` set ?F \<longleftrightarrow>
      (\<exists>r\<in>set m. year_of pd r = Some y \<and> str_contains ''Comedy'' (Movie_genres r))"
      by (simp add: comedy_def)
  qed
  from u f sub keys show ?thesis by blast
qed

theorem releases_comedy_subset_witness:
  "(let self = \<lparr>movie_df = Some (map clean_movie_row sample_movies),
               character_df = Some (clean_characters sample_parse_number sample_characters)\<rparr>
    in fst (releases sample_parse_date None self) = Inr [(1987, 1), (2001, 2)]
     \<and> fst (releases sample_parse_date (Some ''Comedy'') self) = Inr [(2001, 1)]
     \<and> (\<exists>r\<in>set (map clean_movie_row sample_movies).
           year_of sample_parse_date r = Some 2001 \<and> str_contains ''Comedy'' (Movie_genres r)))"
proof -
  let ?self = "\<lparr>movie_df = Some (map clean_movie_row sample_movies),
               character_df = Some (clean_characters sample_parse_number sample_characters)\<rparr>"
  have u: "fst (releases sample_parse_date None ?self) = Inr [(1987, 1), (2001, 2)]"
    by code_simp
  have f: "fst (releases sample_parse_date (Some ''Comedy'') ?self) = Inr [(2001, 1)]"
    by code_simp
  have m: "movie_df ?self = Some (map clean_movie_row sample_movies)"
    by simp
  from releases_comedy_subset [OF m, of sample_parse_date] f
  have "(2001::int) \<in> fst ` set [(2001, 1::nat)] \<longleftrightarrow>
      (\<exists>r\<in>set (map clean_movie_row sample_movies).
           year_of sample_parse_date r = Some 2001 \<and> str_contains ''Comedy'' (Movie_genres r))"
    by auto
  then have "\<exists>r\<in>set (map clean_movie_row sample_movies).
           year_of sample_parse_date r = Some 2001 \<and> str_contains ''Comedy'' (Movie_genres r)"
    by simp
  with u f show ?thesis by (simp add: Let_def)
qed

section \<open>Top genres: the argument\<close>

text \<open>
  Claim C6 as stated fails: \<open>movie_type\<close> only tests \<open>isinstance(N, int)\<close>. For
  \<open>N = 0\<close> it returns an empty table, and for \<open>N = -4\<close> the five entries of the sample's
  ranking but the last four; neither call raises.
\<close>

theorem movie_type_nonpositive_counterexample:
  "fst (movie_type (PyInt 0) (snd (clean_data sample_parse_number sample_data))) = Inr []
   \<and> fst (movie_type (PyInt (- 4)) (snd (clean_data sample_parse_number sample_data)))
       = Inr [(''Thriller'', 2)]"
  by code_simp

text \<open>The ranking lists every genre once with the number of its occurrences, and its
  counts never increase.\<close>

lemma set_value_counts: "set (value_counts xs) = (\<lambda>v. (v, count_list xs v)) ` set xs"
  by (simp add: value_counts_def)

lemma distinct_value_counts: "distinct (map fst (value_counts xs))"
proof -
  have "distinct (map (\<lambda>v. (v, count_list xs v)) (rev (remdups (rev xs))))"
    by (simp add: distinct_map inj_on_def)
  then have "distinct (value_counts xs)"
    by (simp add: value_counts_def)
  moreover have "inj_on fst (set (value_counts xs))"
    by (auto simp: set_value_counts inj_on_def)
  ultimately show ?thesis by (simp add: distinct_map)
qed

lemma value_counts_decreasing: "sorted_wrt (\<lambda>a b. snd b \<le> snd a) (value_counts xs)"
proof -
  have "sorted (map (\<lambda>p. - int (snd p)) (value_counts xs))"
    by (simp add: value_counts_def)
  then show ?thesis by (simp add: sorted_map)
qed

text \<open>
  Claim C6, amended: for every argument that is not an instance of \<open>int\<close> (a float, a
  string, \<open>None\<close>, any other object) \<open>movie_type\<close> fails with a \<open>ValueError\<close>. For every
  integer, positive or not, it returns a result: with the movie table loaded, the first
  \<open>n\<close> entries of the genre ranking when \<open>n\<close> is not negative (none for \<open>n = 0\<close>) and all
  entries of the ranking but the last \<open>-n\<close> when \<open>n\<close> is negative; an empty table when
  the movie table is not loaded. A bool passes the test of the type; with the movie
  table loaded \<open>head\<close> then raises a \<open>TypeError\<close>, without it the result is the empty
  table.
\<close>

theorem movie_type_validation_amended:
  "((\<forall>n. N \<noteq> PyInt n) \<and> (\<forall>b. N \<noteq> PyBool b) \<longrightarrow> fst (movie_type N self) = Inl ValueError)
   \<and> (movie_df self = Some m \<longrightarrow>
        fst (movie_type (PyInt n) self) =
          Inr (if 0 \<le> n then take (nat n) (genre_counts m)
               else take (length (genre_counts m) - nat (- n)) (genre_counts m)))
   \<and> (movie_df self = None \<longrightarrow> fst (movie_type (PyInt n) self) = Inr [])
   \<and> (movie_df self = Some m \<longrightarrow> fst (movie_type (PyBool b) self) = Inl TypeError)
   \<and> (movie_df self = None \<longrightarrow> fst (movie_type (PyBool b) self) = Inr [])"
proof -
  have 1: "(\<forall>n. N \<noteq> PyInt n) \<and> (\<forall>b. N \<noteq> PyBool b) \<longrightarrow> fst (movie_type N self) = Inl ValueError"
  proof (cases N)
    case (PyInt n')
    then show ?thesis by blast
  next
    case (PyBool b')
    then show ?thesis by blast
  qed (simp_all add: movie_type_def)
  have 2: "movie_df self = Some m \<longrightarrow>
        fst (movie_type (PyInt n) self) =
          Inr (if 0 \<le> n then take (nat n) (genre_counts m)
               else take (length (genre_counts m) - nat (- n)) (genre_counts m))"
    by (simp add: movie_type_def head_def)
  have 3: "movie_df self = None \<longrightarrow> fst (movie_type (PyInt n) self) = Inr []"
    by (simp add: movie_type_def)
  have 4: "movie_df self = Some m \<longrightarrow> fst (movie_type (PyBool b) self) = Inl TypeError"
    by (simp add: movie_type_def)
  have 5: "movie_df self = None \<longrightarrow> fst (movie_type (PyBool b) self) = Inr []"
    by (simp add: movie_type_def)
  from 1 2 3 4 5 show ?thesis by blast
qed

theorem movie_type_validation_amended_witness:
  "(let self = \<lparr>movie_df = Some (map clean_movie_row sample_movies),
               character_df = Some (clean_characters sample_parse_number sample_characters)\<rparr>
    in fst (movie_type (PyFloat 2.5) self) = Inl ValueError
     \<and> fst (movie_type PyNone self) = Inl ValueError
     \<and> length (genre_counts (map clean_movie_row sample_movies)) = 5
     \<and> fst (movie_type (PyInt 1) self) = Inr [(''Thriller'', 2)]
     \<and> fst (movie_type (PyInt 0) self) = Inr []
     \<and> fst (movie_type (PyInt (- 4)) self) = Inr [(''Thriller'', 2)]
     \<and> fst (movie_type (PyBool True) self) = Inl TypeError
     \<and> fst (movie_type (PyInt 3) \<lparr>movie_df = None, character_df = None\<rparr>) = Inr [])"
proof -
  let ?m = "map clean_movie_row sample_movies"
  let ?self = "\<lparr>movie_df = Some ?m,
               character_df = Some (clean_characters sample_parse_number sample_characters)\<rparr>"
  have m: "movie_df ?self = Some ?m" by simp
  have len: "length (genre_counts ?m) = 5" by code_simp
  have t1: "take 1 (genre_counts ?m) = [(''Thriller'', 2)]" by code_simp
  from movie_type_validation_amended [of "PyFloat 2.5" ?self]
  have a: "fst (movie_type (PyFloat 2.5) ?self) = Inl ValueError" by simp
  from movie_type_validation_amended [of PyNone ?self]
  have b: "fst (movie_type PyNone ?self) = Inl ValueError" by simp
  from movie_type_validation_amended [of PyNone ?self ?m 1] m t1
  have c: "fst (movie_type (PyInt 1) ?self) = Inr [(''Thriller'', 2)]" by simp
  from movie_type_validation_amended [of PyNone ?self ?m 0] m
  have d: "fst (movie_type (PyInt 0) ?self) = Inr []" by simp
  from movie_type_validation_amended [of PyNone ?self ?m "- 4"] m len t1
  have e: "fst (movie_type (PyInt (- 4)) ?self) = Inr [(''Thriller'', 2)]" by simp
  from movie_type_validation_amended [of PyNone ?self ?m 0 True] m
  have f: "fst (movie_type (PyBool True) ?self) = Inl TypeError" by simp
  from movie_type_validation_amended [of PyNone "\<lparr>movie_df = None, character_df = None\<rparr>" ?m 3]
  have g: "fst (movie_type (PyInt 3) \<lparr>movie_df = None, character_df = None\<rparr>) = Inr []" by simp
  from a b len c d e f g show ?thesis by (simp add: Let_def)
qed

section \<open>Height range: minimum above maximum\<close>

text \<open>
  Claim C5 fails on \<open>actor_distributions\<close> of \<open>moviedata_final.py\<close>, which does not
  compare the bounds: on the cleaned sample tables the call with gender \<open>all\<close>, minimum
  300 and maximum 100 returns an empty table and raises nothing.
\<close>

theorem actor_distributions_min_above_max:
  "actor_distributions ''all'' 300 100 (snd (clean_data sample_parse_number sample_data))
     = (Inr [], snd (clean_data sample_parse_number sample_data))"
  by code_simp

text \<open>\<open>actor_distributions\<close> of \<open>moviedata.py\<close> has the test and raises
  \<open>ValueError\<close>; the one of \<open>moviedata_final.py\<close> never raises it.\<close>

lemma actor_distributions_moviedata_rejects:
  "max_height < min_height \<Longrightarrow> character_df self \<noteq> None \<Longrightarrow>
     fst (actor_distributions_moviedata gender max_height min_height self) = Inl ValueError"
  by (auto simp: actor_distributions_moviedata_def split: option.splits)

lemma actor_distributions_no_validation:
  "fst (actor_distributions gender min_height max_height self) \<noteq> Inl ValueError"
  by (auto simp: actor_distributions_def Let_def split: option.splits)

section \<open>Height distribution: the gender argument\<close>

lemma lower_samples:
  "lower ''All'' = ''all''" "lower ''ALL'' = ''all''" "lower ''all'' = ''all''"
  "lower ''Male'' = ''male''" "lower ''male'' = ''male''"
  by code_simp+

text \<open>
  Claim C10: \<open>actor_distributions\<close> uses its gender argument only lowercased: for
  every gender string and all bounds, the call gives the same result and leaves the
  same tables as the call with the lowercased string. So \<open>All\<close> and \<open>ALL\<close> act as
  \<open>all\<close>, and \<open>Male\<close> selects what \<open>male\<close> selects. A gender that is \<open>all\<close> when
  lowercased selects the rows of every gender within the height bounds.
\<close>

theorem actor_distributions_gender_case_insensitive:
  "actor_distributions g lo hi self = actor_distributions (lower g) lo hi self
   \<and> actor_distributions ''All'' lo hi self = actor_distributions ''all'' lo hi self
   \<and> actor_distributions ''ALL'' lo hi self = actor_distributions ''all'' lo hi self
   \<and> actor_distributions ''Male'' lo hi self = actor_distributions ''male'' lo hi self
   \<and> (lower g = ''all'' \<and> character_df self = Some c \<and> c \<noteq> []
        \<and> \<not> list_ex (\<lambda>r. is_str (Actor_height r)) c \<longrightarrow>
      fst (actor_distributions g lo hi self) =
        Inr (map (\<lambda>r. (normalize_gender (Actor_Gender r), Actor_height r))
              (filter (\<lambda>r. height_between lo hi (Actor_height r)) c)))"
proof -
  have gen: "actor_distributions g lo hi self = actor_distributions (lower g) lo hi self" for g
    unfolding actor_distributions_def by (subst lower_idem)+ (rule refl)
  have sentinel: "fst (actor_distributions g lo hi self) =
        Inr (map (\<lambda>r. (normalize_gender (Actor_Gender r), Actor_height r))
              (filter (\<lambda>r. height_between lo hi (Actor_height r)) c))"
    if "lower g = ''all''" "character_df self = Some c" "c \<noteq> []"
      "\<not> list_ex (\<lambda>r. is_str (Actor_height r)) c"
  proof -
    from that(4) have "\<not> list_ex (\<lambda>r. is_str (Actor_height r))
        (map (\<lambda>r. r\<lparr>Actor_Gender := normalize_gender (Actor_Gender r)\<rparr>) c)"
      by (simp add: list_ex_iff)
    with that(1-3) show ?thesis
      by (simp add: actor_distributions_def Let_def filter_map comp_def)
  qed
  from gen [of g] gen [of "''All''"] gen [of "''ALL''"] gen [of "''Male''"] sentinel
  show ?thesis by (simp add: lower_samples)
qed

theorem actor_distributions_gender_case_insensitive_witness:
  "(let self = \<lparr>movie_df = Some (map clean_movie_row sample_movies),
               character_df = Some (clean_characters sample_parse_number sample_characters)\<rparr>
    in actor_distributions ''MALE'' 150 200 self = actor_distributions ''male'' 150 200 self
     \<and> fst (actor_distributions ''male'' 150 200 self) = Inr [(Some ''male'', Num 175)]
     \<and> fst (actor_distributions ''All'' 150 200 self)
         = Inr [(Some ''female'', Num 162), (Some ''male'', Num 175), (None, Num 180)])"
proof -
  let ?self = "\<lparr>movie_df = Some (map clean_movie_row sample_movies),
               character_df = Some (clean_characters sample_parse_number sample_characters)\<rparr>"
  have l: "lower ''MALE'' = ''male''" by code_simp
  have m: "fst (actor_distributions ''male'' 150 200 ?self) = Inr [(Some ''male'', Num 175)]"
    by code_simp
  have a: "fst (actor_distributions ''All'' 150 200 ?self)
         = Inr [(Some ''female'', Num 162), (Some ''male'', Num 175), (None, Num 180)]"
    by code_simp
  from actor_distributions_gender_case_insensitive [of "''MALE''" 150 200 ?self] l
  have "actor_distributions ''MALE'' 150 200 ?self = actor_distributions ''male'' 150 200 ?self"
    by simp
  with m a show ?thesis by (simp add: Let_def)
qed

section \<open>Queries and the shared tables\<close>

lemma normalized_rows_fixed:
  "map (\<lambda>r. r\<lparr>Actor_Gender := normalize_gender (Actor_Gender r)\<rparr>) (clean_characters pf c)
     = clean_characters pf c"
proof -
  have "r\<lparr>Actor_Gender := normalize_gender (Actor_Gender r)\<rparr> = r"
    if "r \<in> set (clean_characters pf c)" for r
  proof -
    from that obtain r0 where "r = clean_character_row pf r0"
      by (auto simp: clean_characters_def)
    then show ?thesis
      by (simp add: clean_character_row_def normalize_gender_idem)
  qed
  then show ?thesis by (simp add: map_idI)
qed

lemma actor_distributions_frame:
  assumes "character_df self = Some (clean_characters pf c)"
  shows "snd (actor_distributions g lo hi self) = self"
  using assms
  by (simp add: actor_distributions_def Let_def normalized_rows_fixed)

text \<open>
  Claim C2: on the tables that \<open>_clean_data\<close> has produced, every query
  (\<open>movie_type\<close>, \<open>actor_count\<close>, \<open>actor_distributions\<close>, \<open>releases\<close>, \<open>ages\<close>), with
  any argument, leaves the movie and character tables exactly as they were before the
  call; its result is a value computed from the tables and the arguments alone.
  \<open>actor_distributions\<close> assigns the gender column again, with the values it already
  has.
\<close>

theorem queries_leave_tables_unchanged:
  assumes "clean_data pf s0 = (Inr (), self)"
  shows "snd (movie_type N self) = self
       \<and> snd (actor_count self) = self
       \<and> snd (actor_distributions gender min_height max_height self) = self
       \<and> snd (releases pd genre self) = self
       \<and> snd (ages pd unit self) = self"
proof -
  from clean_data_ok [OF assms] obtain c where
    c: "character_df self = Some (clean_characters pf c)"
    by auto
  have 1: "snd (movie_type N self) = self"
    by (simp add: movie_type_def split: option.splits)
  have 2: "snd (actor_count self) = self"
    by (simp add: actor_count_def Let_def split: option.splits)
  have 3: "snd (actor_distributions gender min_height max_height self) = self"
    by (rule actor_distributions_frame [OF c])
  have 4: "snd (releases pd genre self) = self"
    by (simp add: releases_def Let_def split: option.splits)
  have 5: "snd (ages pd unit self) = self"
    by (simp add: ages_def Let_def split: option.splits)
  from 1 2 3 4 5 show ?thesis by blast
qed

theorem queries_leave_tables_unchanged_witness:
  "clean_data sample_parse_number sample_data =
     (Inr (), \<lparr>movie_df = Some (map clean_movie_row sample_movies),
               character_df = Some (clean_characters sample_parse_number sample_characters)\<rparr>)
   \<and> (let self = \<lparr>movie_df = Some (map clean_movie_row sample_movies),
               character_df = Some (clean_characters sample_parse_number sample_characters)\<rparr>
      in snd (movie_type (PyInt 2) self) = self
       \<and> snd (actor_count self) = self
       \<and> snd (actor_distributions ''Male'' 150 200 self) = self
       \<and> snd (releases sample_parse_date (Some ''Comedy'') self) = self
       \<and> snd (ages sample_parse_date ''Y'' self) = self)"
  using queries_leave_tables_unchanged [OF sample_clean] sample_clean
  by (simp add: Let_def)

text \<open>On a table that has not been cleaned the assignment in \<open>actor_distributions\<close>
  does change the gender column.\<close>

lemma actor_distributions_rewrites_uncleaned:
  "character_df (snd (actor_distributions ''all'' 150 200
      \<lparr>movie_df = None, character_df = Some [sample_character]\<rparr>))
    = Some [sample_character\<lparr>Actor_Gender := Some ''female''\<rparr>]"
  by code_simp

end
